theory Spec2Isabelle
  imports Main
begin

section \<open>JavaScript values\<close>

text \<open>
  The values the transforms build and serialise. A JavaScript string is the list of its
  code units, which \<open>length\<close> and \<open>slice\<close> count (a \<open>char\<close> holds the code units
  below 256; slicing and joining do not look at their values). Numbers are the integers
  that token counts, positions and the millisecond clock are; a number that is not an
  integer, which the transforms can only test and copy, is \<open>JNonInt\<close> with the text
  \<open>JSON.stringify\<close> writes for it. An object is the list of its own properties in
  insertion order; a property may hold \<open>undefined\<close>.
\<close>

datatype json =
    JUndefined
  | JNull
  | JBool bool
  | JNum int
  | JNonInt string
  | JStr string
  | JArr "json list"
  | JObj "(string \<times> json) list"

text \<open>ToBoolean, as \<open>x && y\<close>, \<open>x || y\<close> and \<open>if (x)\<close> apply it.\<close>

fun truthy :: "json \<Rightarrow> bool" where
  "truthy JUndefined = False"
| "truthy JNull = False"
| "truthy (JBool b) = b"
| "truthy (JNum n) = (n \<noteq> 0)"
| "truthy (JNonInt t) = True"
| "truthy (JStr s) = (s \<noteq> [])"
| "truthy (JArr xs) = True"
| "truthy (JObj kvs) = True"

text \<open>\<open>x || d\<close>.\<close>

definition js_or :: "json \<Rightarrow> json \<Rightarrow> json" where
  "js_or x d = (if truthy x then x else d)"

text \<open>\<open>...(x && {k: x})\<close> inside an object literal: a falsy \<open>x\<close> spreads nothing.\<close>

definition spread_if :: "string \<Rightarrow> json \<Rightarrow> (string \<times> json) list" where
  "spread_if k x = (if truthy x then [(k, x)] else [])"

text \<open>An optional number read from an object: \<open>undefined\<close> when the property is absent.\<close>

fun num :: "int option \<Rightarrow> json" where
  "num None = JUndefined"
| "num (Some n) = JNum n"

text \<open>An optional string, likewise.\<close>

fun str :: "string option \<Rightarrow> json" where
  "str None = JUndefined"
| "str (Some s) = JStr s"

text \<open>
  \<open>Number.isInteger\<close>: true of a number that is an integer, false of any other
  value, \<open>undefined\<close> and \<open>null\<close> among them.
\<close>

fun Number_isInteger :: "json \<Rightarrow> bool" where
  "Number_isInteger (JNum n) = True"
| "Number_isInteger v = False"

text \<open>\<open>key in obj\<close> and \<open>obj[key]\<close> on an object's own properties.\<close>

definition has_key :: "string \<Rightarrow> (string \<times> json) list \<Rightarrow> bool" where
  "has_key k kvs = (k \<in> set (map fst kvs))"

fun get :: "string \<Rightarrow> json \<Rightarrow> json" where
  "get k (JObj kvs) = (case map_of kvs k of Some v \<Rightarrow> v | None \<Rightarrow> JUndefined)"
| "get k v = JUndefined"

subsection \<open>\<open>String.prototype.slice\<close> and the slicing loop\<close>

text \<open>\<open>s.slice(start, end)\<close> for \<open>0 \<le> start \<le> end\<close>; both ends are clamped to the length.\<close>

definition slice :: "'a list \<Rightarrow> nat \<Rightarrow> nat \<Rightarrow> 'a list" where
  "slice s start end' = take (end' - start) (drop start s)"

text \<open>
  \<open>for (let i = 0; i < s.length; i += 500) push(s.slice(i, i + 500))\<close>, started at \<open>i\<close>.
  The four slicing loops of the transform are this loop.
\<close>

function slices_from :: "nat \<Rightarrow> 'a list \<Rightarrow> 'a list list" where
  "slices_from i s =
     (if i < length s then slice s i (i + 500) # slices_from (i + 500) s else [])"
  by pat_completeness auto
termination
  by (relation "measure (\<lambda>(i, s). length s - i)") auto

declare slices_from.simps [simp del]

subsection \<open>\<open>JSON.stringify\<close>\<close>

definition hex_digit :: "nat \<Rightarrow> char" where
  "hex_digit n = ''0123456789abcdef'' ! (n mod 16)"

text \<open>One code unit inside a JSON string literal.\<close>

definition quote_char :: "char \<Rightarrow> string" where
  "quote_char c =
     (if c = CHR 0x08 then [CHR 0x5C, CHR ''b'']
      else if c = CHR 0x09 then [CHR 0x5C, CHR ''t'']
      else if c = CHR 0x0A then [CHR 0x5C, CHR ''n'']
      else if c = CHR 0x0C then [CHR 0x5C, CHR ''f'']
      else if c = CHR 0x0D then [CHR 0x5C, CHR ''r'']
      else if c = CHR 0x22 then [CHR 0x5C, CHR 0x22]
      else if c = CHR 0x5C then [CHR 0x5C, CHR 0x5C]
      else if (of_char c :: nat) < 0x20
        then [CHR 0x5C, CHR ''u'', CHR ''0'', CHR ''0'', hex_digit (of_char c div 16), hex_digit (of_char c)]
      else [c])"

definition quote :: "string \<Rightarrow> string" where
  "quote s = [CHR 0x22] @ concat (map quote_char s) @ [CHR 0x22]"

fun digits :: "nat \<Rightarrow> string" where
  "digits n = (if n < 10 then [hex_digit n] else digits (n div 10) @ [hex_digit (n mod 10)])"

declare digits.simps [simp del]

definition show_int :: "int \<Rightarrow> string" where
  "show_int n = (if n < 0 then ''-'' @ digits (nat (- n)) else digits (nat n))"

fun join :: "string list \<Rightarrow> string" where
  "join [] = []"
| "join [x] = x"
| "join (x # y # ys) = x @ '','' @ join (y # ys)"

text \<open>An array element that serialises to nothing is written \<open>null\<close>.\<close>

fun element :: "string option \<Rightarrow> string" where
  "element None = ''null''"
| "element (Some t) = t"

text \<open>A property whose value serialises to nothing is left out.\<close>

fun property :: "string \<times> string option \<Rightarrow> string list" where
  "property (k, None) = []"
| "property (k, Some t) = [quote k @ '':'' @ t]"

text \<open>\<open>JSON.stringify(v)\<close>; \<open>None\<close> is the result \<open>undefined\<close>.\<close>

primrec JSON_stringify :: "json \<Rightarrow> string option" where
  "JSON_stringify JUndefined = None"
| "JSON_stringify JNull = Some ''null''"
| "JSON_stringify (JBool b) = Some (if b then ''true'' else ''false'')"
| "JSON_stringify (JNum n) = Some (show_int n)"
| "JSON_stringify (JNonInt t) = Some t"
| "JSON_stringify (JStr s) = Some (quote s)"
| "JSON_stringify (JArr xs) =
     Some (''['' @ join (map element (map JSON_stringify xs)) @ '']'')"
| "JSON_stringify (JObj kvs) =
     Some (''{'' @ join (concat (map property (map (map_prod id JSON_stringify) kvs))) @ ''}'')"

text \<open>A template literal writes \<open>undefined\<close> as the word.\<close>

fun interpolate :: "string option \<Rightarrow> string" where
  "interpolate None = ''undefined''"
| "interpolate (Some t) = t"

section \<open>The response\<close>

text \<open>
  The fields the transform reads, typed as it uses them: what it slices is a string, what
  it adds is a number, what it only tests and copies (the two cache counts among them) is
  any value. An optional property is an \<open>option\<close>, or \<open>JUndefined\<close> where the
  value is only tested and copied.
\<close>

record ContentBlock =
  text' :: "string option"
  thinking :: "string option"
  signature :: "string option"
  data :: "string option"

record ToolFunction =
  name :: string
  arguments :: string

record ToolCall =
  tool_call_id :: string
  function' :: ToolFunction

text \<open>\<open>message.content\<close> is a string or an array of parts.\<close>

datatype MessageContent = ContentString string | ContentParts "ContentBlock list"

record Message =
  content :: "MessageContent option"
  content_blocks :: "ContentBlock list option"
  tool_calls :: "ToolCall list option"

record Choice =
  message :: "Message option"
  finish_reason :: json
  groundingMetadata :: json

record Usage =
  prompt_tokens :: "int option"
  completion_tokens :: "int option"
  cache_read_input_tokens :: json
  cache_creation_input_tokens :: json
  num_search_queries :: "int option"

record Response =
  id' :: json
  model :: json
  system_fingerprint :: json
  choices :: "Choice list"
  citations :: json
  usage :: "Usage option"

section \<open>OpenAIChatCompleteResponseTransform\<close>

text \<open>
  The response is a parsed JSON object, here the list of its properties. The error
  transform of \<open>./utils\<close> and the provider constant \<open>OPEN_AI\<close> of \<open>globals\<close> are
  parameters.
\<close>

definition OpenAIChatCompleteResponseTransform ::
  "((string \<times> json) list \<Rightarrow> string \<Rightarrow> (string \<times> json) list) \<Rightarrow> string \<Rightarrow>
   (string \<times> json) list \<Rightarrow> int \<Rightarrow> (string \<times> json) list" where
  "OpenAIChatCompleteResponseTransform OpenAIErrorResponseTransform OPEN_AI response responseStatus =
     (if responseStatus \<noteq> 200 \<and> has_key ''error'' response
      then OpenAIErrorResponseTransform response OPEN_AI
      else response)"

section \<open>OpenAIChatCompleteJSONToStreamResponseTransform\<close>

subsection \<open>The chunk template\<close>

text \<open>\<open>response.usage || {}\<close>.\<close>

definition no_usage :: Usage where
  "no_usage = \<lparr>prompt_tokens = None, completion_tokens = None,
     cache_read_input_tokens = JUndefined, cache_creation_input_tokens = JUndefined,
     num_search_queries = None\<rparr>"

fun usage_or_empty :: "Usage option \<Rightarrow> Usage" where
  "usage_or_empty None = no_usage"
| "usage_or_empty (Some u) = u"

text \<open>
  \<open>let total_tokens; if (prompt_tokens && completion_tokens) total_tokens = prompt_tokens +
  completion_tokens;\<close>
\<close>

fun total_tokens :: "int option \<Rightarrow> int option \<Rightarrow> int option" where
  "total_tokens (Some p) (Some c) = (if p \<noteq> 0 \<and> c \<noteq> 0 then Some (p + c) else None)"
| "total_tokens p c = None"

text \<open>The provider constant \<open>ANTHROPIC\<close> of \<open>globals\<close> is a parameter.\<close>

definition shouldSendCacheUsage :: "string \<Rightarrow> string \<Rightarrow> Usage \<Rightarrow> bool" where
  "shouldSendCacheUsage ANTHROPIC provider u =
     (provider = ANTHROPIC \<and>
      (Number_isInteger (cache_read_input_tokens u) \<or>
       Number_isInteger (cache_creation_input_tokens u)))"

text \<open>The \<open>usage\<close> object of the template.\<close>

definition usage_object :: "string \<Rightarrow> string \<Rightarrow> Usage \<Rightarrow> (string \<times> json) list" where
  "usage_object ANTHROPIC provider u =
     spread_if ''completion_tokens'' (num (completion_tokens u)) @
     spread_if ''prompt_tokens'' (num (prompt_tokens u)) @
     spread_if ''total_tokens'' (num (total_tokens (prompt_tokens u) (completion_tokens u))) @
     (if shouldSendCacheUsage ANTHROPIC provider u
      then [(''cache_read_input_tokens'', cache_read_input_tokens u),
            (''cache_creation_input_tokens'', cache_creation_input_tokens u)]
      else []) @
     spread_if ''num_search_queries'' (num (num_search_queries u))"

text \<open>
  \<open>streamChunkTemplate\<close>. \<open>now\<close> is what the one call of \<open>Date.now()\<close> returned.
\<close>

definition streamChunkTemplate ::
  "string \<Rightarrow> int \<Rightarrow> Response \<Rightarrow> string \<Rightarrow> (string \<times> json) list" where
  "streamChunkTemplate ANTHROPIC now response provider =
     [(''id'', id' response),
      (''object'', JStr ''chat.completion.chunk''),
      (''created'', JNum now),
      (''model'', js_or (model response) (JStr [])),
      (''system_fingerprint'', js_or (system_fingerprint response) JNull),
      (''provider'', JStr provider),
      (''usage'', JObj (usage_object ANTHROPIC provider (usage_or_empty (usage response))))] @
     spread_if ''citations'' (citations response)"

subsection \<open>The objects given to \<open>JSON.stringify\<close>\<close>

text \<open>\<open>{...streamChunkTemplate, choices: [c]}\<close>; the template has no \<open>choices\<close>.\<close>

definition with_choice :: "(string \<times> json) list \<Rightarrow> json \<Rightarrow> json" where
  "with_choice tmpl c = JObj (tmpl @ [(''choices'', JArr [c])])"

text \<open>
  The chunk of a content block: \<open>extra\<close> is what the delta holds between \<open>role\<close> and
  \<open>content_blocks\<close>, \<open>d\<close> the delta of the block.
\<close>

definition content_block_chunk ::
  "(string \<times> json) list \<Rightarrow> nat \<Rightarrow> (string \<times> json) list \<Rightarrow> nat \<Rightarrow> (string \<times> json) list \<Rightarrow> json" where
  "content_block_chunk tmpl index' extra contentBlockIndex d =
     with_choice tmpl (JObj
       [(''index'', JNum (int index')),
        (''delta'', JObj
          ([(''role'', JStr ''assistant'')] @ extra @
           [(''content_blocks'', JArr
              [JObj [(''index'', JNum (int contentBlockIndex)), (''delta'', JObj d)]])]))])"

definition text_chunk :: "(string \<times> json) list \<Rightarrow> nat \<Rightarrow> nat \<Rightarrow> string \<Rightarrow> json" where
  "text_chunk tmpl index' contentBlockIndex content' =
     content_block_chunk tmpl index' [(''content'', JStr content')] contentBlockIndex
       [(''text'', JStr content')]"

definition thinking_chunk :: "(string \<times> json) list \<Rightarrow> nat \<Rightarrow> nat \<Rightarrow> string \<Rightarrow> json" where
  "thinking_chunk tmpl index' contentBlockIndex thinking' =
     content_block_chunk tmpl index' [] contentBlockIndex [(''thinking'', JStr thinking')]"

definition signature_chunk ::
  "(string \<times> json) list \<Rightarrow> nat \<Rightarrow> nat \<Rightarrow> string option \<Rightarrow> json" where
  "signature_chunk tmpl index' contentBlockIndex signature' =
     content_block_chunk tmpl index' [] contentBlockIndex [(''signature'', str signature')]"

definition data_chunk :: "(string \<times> json) list \<Rightarrow> nat \<Rightarrow> nat \<Rightarrow> string \<Rightarrow> json" where
  "data_chunk tmpl index' contentBlockIndex data' =
     content_block_chunk tmpl index' [] contentBlockIndex [(''data'', JStr data')]"

definition toolCallNameChunk :: "nat \<Rightarrow> ToolCall \<Rightarrow> json" where
  "toolCallNameChunk toolCallIndex toolCall =
     JObj [(''index'', JNum (int toolCallIndex)),
           (''id'', JStr (tool_call_id toolCall)),
           (''type'', JStr ''function''),
           (''function'', JObj [(''name'', JStr (name (function' toolCall))),
                                (''arguments'', JStr [])])]"

definition toolCallArgumentChunk :: "nat \<Rightarrow> ToolCall \<Rightarrow> json" where
  "toolCallArgumentChunk toolCallIndex toolCall =
     JObj [(''index'', JNum (int toolCallIndex)),
           (''function'', JObj [(''arguments'', JStr (arguments (function' toolCall)))])]"

definition tool_name_chunk :: "(string \<times> json) list \<Rightarrow> nat \<Rightarrow> nat \<Rightarrow> ToolCall \<Rightarrow> json" where
  "tool_name_chunk tmpl index' toolCallIndex toolCall =
     with_choice tmpl (JObj
       [(''index'', JNum (int index')),
        (''delta'', JObj
          [(''role'', JStr ''assistant''),
           (''content'', JNull),
           (''tool_calls'', JArr [toolCallNameChunk toolCallIndex toolCall])])])"

definition tool_arguments_chunk ::
  "(string \<times> json) list \<Rightarrow> nat \<Rightarrow> nat \<Rightarrow> ToolCall \<Rightarrow> json" where
  "tool_arguments_chunk tmpl index' toolCallIndex toolCall =
     with_choice tmpl (JObj
       [(''index'', JNum (int index')),
        (''delta'', JObj
          [(''role'', JStr ''assistant''),
           (''tool_calls'', JArr [toolCallArgumentChunk toolCallIndex toolCall])])])"

definition word_chunk :: "(string \<times> json) list \<Rightarrow> nat \<Rightarrow> json \<Rightarrow> string \<Rightarrow> json" where
  "word_chunk tmpl index' grounding word =
     with_choice tmpl (JObj
       ([(''index'', JNum (int index')),
         (''delta'', JObj [(''role'', JStr ''assistant''), (''content'', JStr word)])] @
        spread_if ''groundingMetadata'' grounding))"

definition finish_chunk :: "(string \<times> json) list \<Rightarrow> nat \<Rightarrow> json \<Rightarrow> json" where
  "finish_chunk tmpl index' reason =
     with_choice tmpl (JObj
       [(''index'', JNum (int index')),
        (''delta'', JObj []),
        (''finish_reason'', reason)])"

subsection \<open>What one choice pushes\<close>

text \<open>A string that passes \<open>if (s)\<close>: present and not empty.\<close>

fun nonempty :: "string option \<Rightarrow> string option" where
  "nonempty None = None"
| "nonempty (Some s) = (if s = [] then None else Some s)"

text \<open>The body of the loop over \<open>content_blocks.entries()\<close>.\<close>

definition content_block_events ::
  "(string \<times> json) list \<Rightarrow> nat \<Rightarrow> nat \<Rightarrow> ContentBlock \<Rightarrow> json list" where
  "content_block_events tmpl index' contentBlockIndex contentBlock =
     (case nonempty (text' contentBlock) of
        Some t \<Rightarrow> map (text_chunk tmpl index' contentBlockIndex) (slices_from 0 t)
      | None \<Rightarrow>
     (case nonempty (thinking contentBlock) of
        Some t \<Rightarrow> map (thinking_chunk tmpl index' contentBlockIndex) (slices_from 0 t) @
                  [signature_chunk tmpl index' contentBlockIndex (signature contentBlock)]
      | None \<Rightarrow>
     (case nonempty (data contentBlock) of
        Some t \<Rightarrow> map (data_chunk tmpl index' contentBlockIndex) (slices_from 0 t)
      | None \<Rightarrow> [])))"

text \<open>\<open>if (choice.message?.content_blocks) for (... of content_blocks.entries()) ...\<close>\<close>

definition content_blocks_events ::
  "(string \<times> json) list \<Rightarrow> nat \<Rightarrow> Choice \<Rightarrow> json list" where
  "content_blocks_events tmpl index' choice =
     (case message choice of
        None \<Rightarrow> []
      | Some m \<Rightarrow>
          (case content_blocks m of
             None \<Rightarrow> []
           | Some blocks \<Rightarrow>
               concat (map (\<lambda>(contentBlockIndex, contentBlock).
                              content_block_events tmpl index' contentBlockIndex contentBlock)
                           (enumerate 0 blocks))))"

text \<open>The two chunks of one tool call.\<close>

definition tool_call_events ::
  "(string \<times> json) list \<Rightarrow> nat \<Rightarrow> nat \<Rightarrow> ToolCall \<Rightarrow> json list" where
  "tool_call_events tmpl index' toolCallIndex toolCall =
     [tool_name_chunk tmpl index' toolCallIndex toolCall,
      tool_arguments_chunk tmpl index' toolCallIndex toolCall]"

text \<open>
  \<open>if (choice.message && choice.message.tool_calls && choice.message.tool_calls.length)
  for (... of tool_calls.entries()) ...\<close>
\<close>

definition tool_calls_events :: "(string \<times> json) list \<Rightarrow> nat \<Rightarrow> Choice \<Rightarrow> json list" where
  "tool_calls_events tmpl index' choice =
     (case message choice of
        None \<Rightarrow> []
      | Some m \<Rightarrow>
          (case tool_calls m of
             None \<Rightarrow> []
           | Some calls \<Rightarrow>
               if length calls \<noteq> 0
               then concat (map (\<lambda>(toolCallIndex, toolCall).
                                   tool_call_events tmpl index' toolCallIndex toolCall)
                                (enumerate 0 calls))
               else []))"

text \<open>
  \<open>if (choice.message && choice.message.content && typeof choice.message.content ===
  'string' && !choice.message.content_blocks)\<close>: the words, then one chunk for each.
\<close>

definition content_events :: "(string \<times> json) list \<Rightarrow> nat \<Rightarrow> Choice \<Rightarrow> json list" where
  "content_events tmpl index' choice =
     (case message choice of
        None \<Rightarrow> []
      | Some m \<Rightarrow>
          (case content m of
             Some (ContentString c) \<Rightarrow>
               if c \<noteq> [] \<and> content_blocks m = None
               then map (word_chunk tmpl index' (groundingMetadata choice)) (slices_from 0 c)
               else []
           | _ \<Rightarrow> []))"

text \<open>One turn of the loop over \<open>choices.entries()\<close>.\<close>

definition choice_events :: "(string \<times> json) list \<Rightarrow> nat \<Rightarrow> Choice \<Rightarrow> json list" where
  "choice_events tmpl index' choice =
     content_blocks_events tmpl index' choice @
     tool_calls_events tmpl index' choice @
     content_events tmpl index' choice @
     [finish_chunk tmpl index' (finish_reason choice)]"

subsection \<open>The stream\<close>

text \<open>The objects serialised for a response, in the order they are pushed.\<close>

definition stream_objects :: "string \<Rightarrow> int \<Rightarrow> Response \<Rightarrow> string \<Rightarrow> json list" where
  "stream_objects ANTHROPIC now response provider =
     concat (map (\<lambda>(index', choice).
                    choice_events (streamChunkTemplate ANTHROPIC now response provider)
                      index' choice)
                 (enumerate 0 (choices response)))"

text \<open>\<open>`data: ${JSON.stringify(obj)}\n\n`\<close>\<close>

definition data_line :: "json \<Rightarrow> string" where
  "data_line obj = ''data: '' @ interpolate (JSON_stringify obj) @ [CHR 0x0A, CHR 0x0A]"

text \<open>\<open>`data: [DONE]\n\n`\<close>\<close>

definition DONE :: string where
  "DONE = ''data: [DONE]'' @ [CHR 0x0A, CHR 0x0A]"

definition OpenAIChatCompleteJSONToStreamResponseTransform ::
  "string \<Rightarrow> int \<Rightarrow> Response \<Rightarrow> string \<Rightarrow> string list" where
  "OpenAIChatCompleteJSONToStreamResponseTransform ANTHROPIC now response provider =
     map data_line (stream_objects ANTHROPIC now response provider) @ [DONE]"

section \<open>Reading a chunk\<close>










text \<open>The properties of an object, and the string a value is, if it is one.\<close>

fun props :: "json \<Rightarrow> (string \<times> json) list" where
  "props (JObj kvs) = kvs"
| "props v = []"







text \<open>
  The value as its text shows it, which is what parsing the text gives back: a property
  holding \<open>undefined\<close> is left out and an \<open>undefined\<close> array element is \<open>null\<close>.
\<close>

primrec serialised :: "json \<Rightarrow> json" where
  "serialised JUndefined = JUndefined"
| "serialised JNull = JNull"
| "serialised (JBool b) = JBool b"
| "serialised (JNum n) = JNum n"
| "serialised (JNonInt t) = JNonInt t"
| "serialised (JStr s) = JStr s"
| "serialised (JArr xs) =
     JArr (map (\<lambda>v. if v = JUndefined then JNull else v) (map serialised xs))"
| "serialised (JObj kvs) =
     JObj (filter (\<lambda>kv. snd kv \<noteq> JUndefined) (map (map_prod id serialised) kvs))"

section \<open>Sample inputs\<close>

definition sample_error_body :: "(string \<times> json) list" where
  "sample_error_body = [(''error'', JObj [(''message'', JStr ''bad key'')])]"

definition sample_error_transform ::
  "(string \<times> json) list \<Rightarrow> string \<Rightarrow> (string \<times> json) list" where
  "sample_error_transform body provider =
     [(''error'', get ''error'' (JObj body)), (''provider'', JStr provider)]"





definition sample_choice :: "Message option \<Rightarrow> Choice" where
  "sample_choice m = \<lparr>message = m, finish_reason = JStr ''stop'', groundingMetadata = JUndefined\<rparr>"

definition sample_usage :: "int option \<Rightarrow> int option \<Rightarrow> json \<Rightarrow> json \<Rightarrow> Usage" where
  "sample_usage p c cr cc =
     \<lparr>prompt_tokens = p, completion_tokens = c, cache_read_input_tokens = cr,
      cache_creation_input_tokens = cc, num_search_queries = None\<rparr>"

definition sample_response :: "Choice list \<Rightarrow> Usage option \<Rightarrow> Response" where
  "sample_response cs u =
     \<lparr>id' = JStr ''chatcmpl-1'', model = JUndefined, system_fingerprint = JUndefined,
      choices = cs, citations = JUndefined, usage = u\<rparr>"


definition flat_message :: "string \<Rightarrow> Message" where
  "flat_message s = \<lparr>content = Some (ContentString s), content_blocks = None, tool_calls = None\<rparr>"





section \<open>The slicing loop\<close>

lemma slices_from_unfold:
  "i < length s \<Longrightarrow> slices_from i s = slice s i (i + 500) # slices_from (i + 500) s"
  by (subst slices_from.simps) simp

lemma slices_from_done: "\<not> i < length s \<Longrightarrow> slices_from i s = []"
  by (subst slices_from.simps) simp




section \<open>Reading the chunks of the transform\<close>


lemma get_kept: "k \<noteq> k' \<Longrightarrow> get k (JObj (tmpl @ [(k', v)])) = get k (JObj tmpl)"
  by (simp add: map_add_def split: option.splits)









section \<open>Where the chunks of a choice and of a block lie in the stream\<close>













section \<open>The envelope\<close>

lemma content_block_events_shape:
  "e \<in> set (content_block_events tmpl i j b) \<Longrightarrow> \<exists>c. e = with_choice tmpl c"
  by (auto simp: content_block_events_def text_chunk_def thinking_chunk_def data_chunk_def
      signature_chunk_def content_block_chunk_def split: option.splits)

lemma choice_events_shape:
  assumes "e \<in> set (choice_events tmpl i ch)"
  shows "\<exists>c. e = with_choice tmpl c"
proof -
  from assms consider "e \<in> set (content_blocks_events tmpl i ch)"
    | "e \<in> set (tool_calls_events tmpl i ch)"
    | "e \<in> set (content_events tmpl i ch)"
    | "e = finish_chunk tmpl i (finish_reason ch)"
    by (auto simp: choice_events_def)
  then show ?thesis
  proof cases
    case 1
    then obtain j b where "e \<in> set (content_block_events tmpl i j b)"
      by (auto simp: content_blocks_events_def split: option.splits)
    then show ?thesis by (rule content_block_events_shape)
  next
    case 2
    then show ?thesis
      by (auto simp: tool_calls_events_def tool_call_events_def tool_name_chunk_def
          tool_arguments_chunk_def split: option.splits if_splits)
  next
    case 3
    then show ?thesis
      by (auto simp: content_events_def word_chunk_def
          split: option.splits if_splits MessageContent.splits)
  next
    case 4
    then show ?thesis by (auto simp: finish_chunk_def)
  qed
qed

lemma stream_objects_shape:
  assumes "e \<in> set (stream_objects A now r p)"
  shows "\<exists>c. e = with_choice (streamChunkTemplate A now r p) c"
proof -
  from assms obtain i ch where "e \<in> set (choice_events (streamChunkTemplate A now r p) i ch)"
    by (auto simp: stream_objects_def)
  then show ?thesis by (rule choice_events_shape)
qed

lemma get_with_choice:
  "k \<noteq> ''choices'' \<Longrightarrow> get k (with_choice tmpl c) = get k (JObj tmpl)"
  unfolding with_choice_def by (rule get_kept)

lemma template_usage:
  "get ''usage'' (JObj (streamChunkTemplate A now r p)) =
     JObj (usage_object A p (usage_or_empty (usage r)))"
  by (simp add: streamChunkTemplate_def)

lemma stream_objects_usage:
  assumes "e \<in> set (stream_objects A now r p)"
  shows "get ''usage'' e = JObj (usage_object A p (usage_or_empty (usage r)))"
proof -
  from stream_objects_shape [OF assms] obtain c where
    "e = with_choice (streamChunkTemplate A now r p) c" ..
  then show ?thesis by (simp add: get_with_choice template_usage del: get.simps)
qed

lemma data_line_not_DONE: "data_line (with_choice tmpl c) \<noteq> DONE"
  by (simp add: data_line_def with_choice_def DONE_def)

lemma has_key_simps:
  "has_key k [] \<longleftrightarrow> False"
  "has_key k ((k', v) # kvs) \<longleftrightarrow> k = k' \<or> has_key k kvs"
  "has_key k (xs @ ys) \<longleftrightarrow> has_key k xs \<or> has_key k ys"
  "has_key k (spread_if k' v) \<longleftrightarrow> k = k' \<and> truthy v"
  "has_key k (if c then xs else ys) \<longleftrightarrow> (if c then has_key k xs else has_key k ys)"
  by (auto simp: has_key_def spread_if_def)

section \<open>The chunks of one content block\<close>












section \<open>The chunks of the tool calls and the order within a choice\<close>







section \<open>The text of a value\<close>

lemma serialised_undefined: "serialised v = JUndefined \<longleftrightarrow> v = JUndefined"
  by (cases v) simp_all

lemma stringify_undefined: "JSON_stringify v = None \<longleftrightarrow> v = JUndefined"
  by (cases v) simp_all

lemma stringify_elements:
  assumes "\<And>x. x \<in> set xs \<Longrightarrow> JSON_stringify (serialised x) = JSON_stringify x"
  shows "map element (map JSON_stringify
           (map (\<lambda>v. if v = JUndefined then JNull else v) (map serialised xs))) =
         map element (map JSON_stringify xs)"
proof -
  have "element (JSON_stringify (if serialised x = JUndefined then JNull else serialised x)) =
      element (JSON_stringify x)" if "x \<in> set xs" for x
    using assms [OF that] by (cases "x = JUndefined") (simp_all add: serialised_undefined)
  then have "map (\<lambda>x. element (JSON_stringify
        (if serialised x = JUndefined then JNull else serialised x))) xs =
      map (\<lambda>x. element (JSON_stringify x)) xs"
    by (simp only: map_eq_conv) blast
  then show ?thesis by (simp add: comp_def)
qed

lemma stringify_properties:
  assumes "\<And>k v. (k, v) \<in> set kvs \<Longrightarrow> JSON_stringify (serialised v) = JSON_stringify v"
  shows "concat (map property (map (map_prod id JSON_stringify)
           (filter (\<lambda>kv. snd kv \<noteq> JUndefined) (map (map_prod id serialised) kvs)))) =
         concat (map property (map (map_prod id JSON_stringify) kvs))"
proof -
  define F where "F = map_prod (id :: string \<Rightarrow> string) JSON_stringify"
  define G where "G = map_prod (id :: string \<Rightarrow> string) serialised"
  have F: "F (k, v) = (k, JSON_stringify v)" and G: "G (k, v) = (k, serialised v)" for k v
    by (simp_all add: F_def G_def)
  have "concat (map property (map F (filter (\<lambda>kv. snd kv \<noteq> JUndefined) (map G kvs)))) =
      concat (map property (map F kvs))"
    using assms
  proof (induction kvs)
    case Nil
    then show ?case by simp
  next
    case (Cons kv kvs)
    obtain k v where kv: "kv = (k, v)" by (cases kv)
    have v: "JSON_stringify (serialised v) = JSON_stringify v"
      using Cons.prems [of k v] by (simp add: kv)
    have rest: "concat (map property (map F (filter (\<lambda>kv. snd kv \<noteq> JUndefined) (map G kvs)))) =
        concat (map property (map F kvs))"
    proof (rule Cons.IH)
      fix k' v'
      assume "(k', v') \<in> set kvs"
      then show "JSON_stringify (serialised v') = JSON_stringify v'"
        using Cons.prems [of k' v'] by simp
    qed
    show ?case
    proof (cases "v = JUndefined")
      case True
      then show ?thesis using rest by (simp add: kv F G)
    next
      case False
      then have "serialised v \<noteq> JUndefined" by (simp add: serialised_undefined)
      then show ?thesis using rest by (simp add: kv v F G)
    qed
  qed
  then show ?thesis by (simp only: F_def G_def)
qed

lemma stringify_serialised: "JSON_stringify (serialised v) = JSON_stringify v"
proof (induction v)
  case (JArr xs)
  have "JSON_stringify (serialised (JArr xs)) =
      Some (''['' @ join (map element (map JSON_stringify
        (map (\<lambda>v. if v = JUndefined then JNull else v) (map serialised xs)))) @ '']'')"
    by (simp only: serialised.simps JSON_stringify.simps)
  also have "\<dots> = Some (''['' @ join (map element (map JSON_stringify xs)) @ '']'')"
    by (simp only: stringify_elements [OF JArr])
  also have "\<dots> = JSON_stringify (JArr xs)"
    by (simp only: JSON_stringify.simps)
  finally show ?case .
next
  case (JObj kvs)
  have each: "JSON_stringify (serialised w) = JSON_stringify w" if "(k, w) \<in> set kvs" for k w
    using JObj [OF that] by simp
  have "JSON_stringify (serialised (JObj kvs)) =
      Some (''{'' @ join (concat (map property (map (map_prod id JSON_stringify)
        (filter (\<lambda>kv. snd kv \<noteq> JUndefined) (map (map_prod id serialised) kvs))))) @ ''}'')"
    by (simp only: serialised.simps JSON_stringify.simps)
  also have "\<dots> = Some (''{'' @ join (concat (map property
      (map (map_prod id JSON_stringify) kvs))) @ ''}'')"
    by (simp only: stringify_properties [OF each])
  also have "\<dots> = JSON_stringify (JObj kvs)"
    by (simp only: JSON_stringify.simps)
  finally show ?case .
qed simp_all

lemma data_line_serialised: "data_line (serialised e) = data_line e"
  by (simp add: data_line_def stringify_serialised)

lemma map_of_absent:
  "k \<notin> fst ` set kvs \<Longrightarrow>
     map_of (filter (\<lambda>kv. snd kv \<noteq> JUndefined) (map (map_prod id serialised) kvs)) k = None"
  by (induction kvs) auto

lemma get_serialised:
  "distinct (map fst kvs) \<Longrightarrow> get k (serialised (JObj kvs)) = serialised (get k (JObj kvs))"
proof (induction kvs)
  case Nil
  then show ?case by simp
next
  case (Cons kv kvs)
  obtain k' v where kv: "kv = (k', v)" by (cases kv)
  from Cons.prems have absent: "k' \<notin> fst ` set kvs" and rest: "distinct (map fst kvs)"
    by (simp_all add: kv)
  show ?case
  proof (cases "k = k'")
    case True
    then show ?thesis
      using map_of_absent [OF absent]
      by (cases "v = JUndefined") (simp_all add: kv serialised_undefined)
  next
    case False
    then show ?thesis
      using Cons.IH [OF rest] by (simp add: kv)
  qed
qed

lemma has_key_serialised:
  "distinct (map fst kvs) \<Longrightarrow>
     has_key k (props (serialised (JObj kvs))) \<longleftrightarrow> get k (JObj kvs) \<noteq> JUndefined"
proof (induction kvs)
  case Nil
  then show ?case by (simp add: has_key_def)
next
  case (Cons kv kvs)
  obtain k' v where kv: "kv = (k', v)" by (cases kv)
  from Cons.prems have absent: "k' \<notin> fst ` set kvs" and rest: "distinct (map fst kvs)"
    by (simp_all add: kv)
  have IH: "has_key k (filter (\<lambda>kv. snd kv \<noteq> JUndefined) (map (map_prod id serialised) kvs)) \<longleftrightarrow>
      get k (JObj kvs) \<noteq> JUndefined"
    using Cons.IH [OF rest] by simp
  have none: "\<not> has_key k' (filter (\<lambda>kv. snd kv \<noteq> JUndefined) (map (map_prod id serialised) kvs))"
    using absent by (force simp: has_key_def)
  show ?case
  proof (cases "k = k'")
    case True
    then show ?thesis
      using none by (cases "v = JUndefined") (simp_all add: kv serialised_undefined has_key_simps)
  next
    case False
    then show ?thesis
      using IH by (simp add: kv has_key_simps)
  qed
qed

lemma template_distinct:
  "distinct (map fst (streamChunkTemplate A now r p @ [(''choices'', c)]))"
  by (simp add: streamChunkTemplate_def spread_if_def)

lemma usage_object_distinct: "distinct (map fst (usage_object A p u))"
  by (auto simp: usage_object_def spread_if_def)

lemma usage_object_cache:
  "get ''cache_read_input_tokens'' (JObj (usage_object A p u)) =
     (if shouldSendCacheUsage A p u then cache_read_input_tokens u else JUndefined)"
  "get ''cache_creation_input_tokens'' (JObj (usage_object A p u)) =
     (if shouldSendCacheUsage A p u then cache_creation_input_tokens u else JUndefined)"
  by (simp_all add: usage_object_def spread_if_def map_add_def)

lemma stream_objects_usage_serialised:
  assumes "e \<in> set (stream_objects A now r p)"
  shows "get ''usage'' (serialised e) =
           serialised (JObj (usage_object A p (usage_or_empty (usage r))))"
proof -
  from stream_objects_shape [OF assms] obtain c where
    e: "e = with_choice (streamChunkTemplate A now r p) c" ..
  have "get ''usage'' (serialised e) = serialised (get ''usage'' e)"
    unfolding e with_choice_def by (rule get_serialised [OF template_distinct])
  then show ?thesis by (simp only: stream_objects_usage [OF assms])
qed

section \<open>The signature chunk\<close>





section \<open>The claims\<close>






text \<open>
  C3, as the code has it. In the usage object of every chunk, \<open>total_tokens\<close> appears
  exactly when \<open>prompt_tokens\<close> and \<open>completion_tokens\<close> are both present and not zero
  and their sum is not zero; when it appears it is their sum. A count of 0 is treated as
  an absent one.
\<close>

theorem total_tokens_iff_counts_truthy:
  assumes "e \<in> set (stream_objects A now r p)"
  shows "(has_key ''total_tokens'' (props (get ''usage'' e)) \<longleftrightarrow>
            (\<exists>a b. prompt_tokens (usage_or_empty (usage r)) = Some a \<and>
                   completion_tokens (usage_or_empty (usage r)) = Some b \<and>
                   a \<noteq> 0 \<and> b \<noteq> 0 \<and> a + b \<noteq> 0)) \<and>
         (\<forall>a b. prompt_tokens (usage_or_empty (usage r)) = Some a \<and>
                completion_tokens (usage_or_empty (usage r)) = Some b \<and>
                a \<noteq> 0 \<and> b \<noteq> 0 \<and> a + b \<noteq> 0 \<longrightarrow>
                get ''total_tokens'' (get ''usage'' e) = JNum (a + b))"
proof -
  let ?u = "usage_or_empty (usage r)"
  have u: "get ''usage'' e = JObj (usage_object A p ?u)"
    using assms by (rule stream_objects_usage)
  show ?thesis
  proof (cases "prompt_tokens ?u")
    case None
    then show ?thesis
      by (auto simp: u usage_object_def has_key_simps)
  next
    case (Some a)
    note pa = this
    show ?thesis
    proof (cases "completion_tokens ?u")
      case None
      with pa show ?thesis
        by (auto simp: u usage_object_def has_key_simps)
    next
      case (Some b)
      with pa show ?thesis
        by (auto simp: u usage_object_def has_key_simps spread_if_def map_add_def)
    qed
  qed
qed

theorem total_tokens_iff_counts_truthy_witness:
  "get ''total_tokens'' (get ''usage'' (hd (stream_objects ''anthropic'' 0
     (sample_response [sample_choice None] (Some (sample_usage (Some 7) (Some 5) JUndefined JUndefined)))
     ''openai''))) = JNum 12"
proof -
  let ?r = "sample_response [sample_choice None] (Some (sample_usage (Some 7) (Some 5) JUndefined JUndefined))"
  have "stream_objects ''anthropic'' 0 ?r ''openai'' \<noteq> []"
    by (simp add: stream_objects_def sample_response_def choice_events_def)
  then have "hd (stream_objects ''anthropic'' 0 ?r ''openai'')
      \<in> set (stream_objects ''anthropic'' 0 ?r ''openai'')"
    by (rule hd_in_set)
  from total_tokens_iff_counts_truthy [OF this] show ?thesis
    by (simp add: sample_response_def sample_usage_def)
qed

theorem total_tokens_absent_at_zero:
  "prompt_tokens (sample_usage (Some 0) (Some 5) JUndefined JUndefined) = Some 0 \<and>
   completion_tokens (sample_usage (Some 0) (Some 5) JUndefined JUndefined) = Some 5 \<and>
   get ''usage'' (hd (stream_objects ''anthropic'' 0
     (sample_response [sample_choice None] (Some (sample_usage (Some 0) (Some 5) JUndefined JUndefined)))
     ''openai'')) = JObj [(''completion_tokens'', JNum 5)] \<and>
   get ''usage'' (hd (stream_objects ''anthropic'' 0
     (sample_response [sample_choice None] (Some (sample_usage (Some 5) (Some (- 5)) JUndefined JUndefined)))
     ''openai'')) = JObj [(''completion_tokens'', JNum (- 5)), (''prompt_tokens'', JNum 5)]"
  by (simp add: stream_objects_def sample_response_def sample_usage_def sample_choice_def
      choice_events_def content_blocks_events_def tool_calls_events_def content_events_def
      finish_chunk_def with_choice_def streamChunkTemplate_def usage_object_def spread_if_def
      shouldSendCacheUsage_def js_or_def map_add_def)

text \<open>
  C4, as the code has it. On the usage object handed to \<open>JSON.stringify\<close>,
  \<open>cache_read_input_tokens\<close> and \<open>cache_creation_input_tokens\<close> are both set exactly
  when the provider is \<open>ANTHROPIC\<close> and \<open>Number.isInteger\<close> holds of at least one of
  the two counts. In the event as it is returned, whose text is the text of the serialised
  object, each of the two fields appears exactly when, besides, its own count is not
  \<open>undefined\<close>, and it then carries that count as the response gave it, so the integer 0
  is included as 0.
\<close>

theorem cache_usage_iff_anthropic_integer_and_defined:
  assumes "e \<in> set (stream_objects A now r p)"
  shows "data_line (serialised e) = data_line e \<and>
         (has_key ''cache_read_input_tokens'' (props (get ''usage'' e)) \<longleftrightarrow>
            p = A \<and>
            (Number_isInteger (cache_read_input_tokens (usage_or_empty (usage r))) \<or>
             Number_isInteger (cache_creation_input_tokens (usage_or_empty (usage r))))) \<and>
         (has_key ''cache_creation_input_tokens'' (props (get ''usage'' e)) \<longleftrightarrow>
            p = A \<and>
            (Number_isInteger (cache_read_input_tokens (usage_or_empty (usage r))) \<or>
             Number_isInteger (cache_creation_input_tokens (usage_or_empty (usage r))))) \<and>
         (has_key ''cache_read_input_tokens'' (props (get ''usage'' (serialised e))) \<longleftrightarrow>
            p = A \<and>
            (Number_isInteger (cache_read_input_tokens (usage_or_empty (usage r))) \<or>
             Number_isInteger (cache_creation_input_tokens (usage_or_empty (usage r)))) \<and>
            cache_read_input_tokens (usage_or_empty (usage r)) \<noteq> JUndefined) \<and>
         (has_key ''cache_creation_input_tokens'' (props (get ''usage'' (serialised e))) \<longleftrightarrow>
            p = A \<and>
            (Number_isInteger (cache_read_input_tokens (usage_or_empty (usage r))) \<or>
             Number_isInteger (cache_creation_input_tokens (usage_or_empty (usage r)))) \<and>
            cache_creation_input_tokens (usage_or_empty (usage r)) \<noteq> JUndefined) \<and>
         (p = A \<and>
            (Number_isInteger (cache_read_input_tokens (usage_or_empty (usage r))) \<or>
             Number_isInteger (cache_creation_input_tokens (usage_or_empty (usage r)))) \<longrightarrow>
            get ''cache_read_input_tokens'' (get ''usage'' (serialised e)) =
              serialised (cache_read_input_tokens (usage_or_empty (usage r))) \<and>
            get ''cache_creation_input_tokens'' (get ''usage'' (serialised e)) =
              serialised (cache_creation_input_tokens (usage_or_empty (usage r)))) \<and>
         (\<forall>n. p = A \<and> cache_read_input_tokens (usage_or_empty (usage r)) = JNum n \<longrightarrow>
            get ''cache_read_input_tokens'' (get ''usage'' (serialised e)) = JNum n) \<and>
         (\<forall>n. p = A \<and> cache_creation_input_tokens (usage_or_empty (usage r)) = JNum n \<longrightarrow>
            get ''cache_creation_input_tokens'' (get ''usage'' (serialised e)) = JNum n)"
proof -
  let ?u = "usage_or_empty (usage r)"
  let ?U = "usage_object A p ?u"
  have same_text: "data_line (serialised e) = data_line e"
    by (rule data_line_serialised)
  have u: "get ''usage'' e = JObj ?U"
    using assms by (rule stream_objects_usage)
  have w: "get ''usage'' (serialised e) = serialised (JObj ?U)"
    using assms by (rule stream_objects_usage_serialised)
  have obj: "has_key ''cache_read_input_tokens'' ?U \<longleftrightarrow> shouldSendCacheUsage A p ?u"
    "has_key ''cache_creation_input_tokens'' ?U \<longleftrightarrow> shouldSendCacheUsage A p ?u"
    by (auto simp: usage_object_def has_key_simps)
  have wire: "has_key k (props (serialised (JObj ?U))) \<longleftrightarrow> get k (JObj ?U) \<noteq> JUndefined" for k
    by (rule has_key_serialised [OF usage_object_distinct])
  have val: "get k (serialised (JObj ?U)) = serialised (get k (JObj ?U))" for k
    by (rule get_serialised [OF usage_object_distinct])
  have send: "shouldSendCacheUsage A p ?u \<longleftrightarrow>
      p = A \<and> (Number_isInteger (cache_read_input_tokens ?u) \<or>
               Number_isInteger (cache_creation_input_tokens ?u))"
    by (simp add: shouldSendCacheUsage_def)
  have int: "Number_isInteger (JNum n)" and ser: "serialised (JNum n) = JNum n" for n
    by simp_all
  show ?thesis
    unfolding u w wire val usage_object_cache props.simps obj send
    using same_text int ser by (auto simp del: Number_isInteger.simps serialised.simps)
qed

theorem cache_usage_iff_anthropic_integer_and_defined_witness:
  "has_key ''cache_read_input_tokens'' (props (get ''usage'' (serialised (hd (stream_objects
     ''anthropic'' 0
     (sample_response [sample_choice None] (Some (sample_usage None None (JNum 0) JUndefined)))
     ''anthropic''))))) \<and>
   get ''cache_read_input_tokens'' (get ''usage'' (serialised (hd (stream_objects
     ''anthropic'' 0
     (sample_response [sample_choice None] (Some (sample_usage None None (JNum 0) JUndefined)))
     ''anthropic'')))) = JNum 0 \<and>
   \<not> has_key ''cache_creation_input_tokens'' (props (get ''usage'' (serialised (hd
     (stream_objects ''anthropic'' 0
     (sample_response [sample_choice None] (Some (sample_usage None None (JNum 0) JUndefined)))
     ''anthropic''))))) \<and>
   \<not> has_key ''cache_read_input_tokens'' (props (get ''usage'' (serialised (hd (stream_objects
     ''anthropic'' 0
     (sample_response [sample_choice None] (Some (sample_usage None None (JNum 0) JUndefined)))
     ''openai''))))) \<and>
   \<not> has_key ''cache_read_input_tokens'' (props (get ''usage'' (serialised (hd (stream_objects
     ''anthropic'' 0
     (sample_response [sample_choice None]
        (Some (sample_usage None None (JNonInt ''1.5'') JNull)))
     ''anthropic'')))))"
proof -
  have ne: "stream_objects ''anthropic'' 0 (sample_response [sample_choice None] u) q \<noteq> []"
    for u q
    by (simp add: stream_objects_def sample_response_def choice_events_def)
  have mem: "hd (stream_objects ''anthropic'' 0 (sample_response [sample_choice None] u) q)
      \<in> set (stream_objects ''anthropic'' 0 (sample_response [sample_choice None] u) q)"
    for u q
    using ne by (rule hd_in_set)
  have u: "usage (sample_response [sample_choice None] v) = v" for v
    by (simp add: sample_response_def)
  from cache_usage_iff_anthropic_integer_and_defined
         [OF mem [of "Some (sample_usage None None (JNum 0) JUndefined)" "''anthropic''"]]
       cache_usage_iff_anthropic_integer_and_defined
         [OF mem [of "Some (sample_usage None None (JNum 0) JUndefined)" "''openai''"]]
       cache_usage_iff_anthropic_integer_and_defined
         [OF mem [of "Some (sample_usage None None (JNonInt ''1.5'') JNull)" "''anthropic''"]]
  show ?thesis
    by (simp add: u sample_usage_def)
qed

theorem cache_creation_left_out_of_the_event:
  "Number_isInteger (cache_read_input_tokens (sample_usage None None (JNum 0) JUndefined)) \<and>
   hd (OpenAIChatCompleteJSONToStreamResponseTransform ''anthropic'' 0
     (sample_response [sample_choice None] (Some (sample_usage None None (JNum 0) JUndefined)))
     ''anthropic'') =
     data_line (JObj
       [(''id'', JStr ''chatcmpl-1''),
        (''object'', JStr ''chat.completion.chunk''),
        (''created'', JNum 0),
        (''model'', JStr []),
        (''system_fingerprint'', JNull),
        (''provider'', JStr ''anthropic''),
        (''usage'', JObj [(''cache_read_input_tokens'', JNum 0)]),
        (''choices'', JArr [JObj [(''index'', JNum 0), (''delta'', JObj []),
                                  (''finish_reason'', JStr ''stop'')]])]) \<and>
   JSON_stringify (JObj [(''cache_read_input_tokens'', JNum 0)]) =
     Some (''{'' @ quote ''cache_read_input_tokens'' @ '':0}'')"
proof -
  let ?r = "sample_response [sample_choice None]
    (Some (sample_usage None None (JNum 0) JUndefined))"
  let ?e = "finish_chunk (streamChunkTemplate ''anthropic'' 0 ?r ''anthropic'') 0 (JStr ''stop'')"
  have "stream_objects ''anthropic'' 0 ?r ''anthropic'' = [?e]"
    by (simp add: stream_objects_def sample_response_def sample_choice_def choice_events_def
        content_blocks_events_def tool_calls_events_def content_events_def)
  then have "hd (OpenAIChatCompleteJSONToStreamResponseTransform ''anthropic'' 0 ?r
      ''anthropic'') = data_line ?e"
    by (simp add: OpenAIChatCompleteJSONToStreamResponseTransform_def)
  also have "\<dots> = data_line (serialised ?e)"
    by (simp only: data_line_serialised)
  also have "serialised ?e = JObj
       [(''id'', JStr ''chatcmpl-1''),
        (''object'', JStr ''chat.completion.chunk''),
        (''created'', JNum 0),
        (''model'', JStr []),
        (''system_fingerprint'', JNull),
        (''provider'', JStr ''anthropic''),
        (''usage'', JObj [(''cache_read_input_tokens'', JNum 0)]),
        (''choices'', JArr [JObj [(''index'', JNum 0), (''delta'', JObj []),
                                  (''finish_reason'', JStr ''stop'')]])]"
    by (simp add: finish_chunk_def with_choice_def streamChunkTemplate_def usage_object_def
        spread_if_def js_or_def shouldSendCacheUsage_def sample_response_def sample_usage_def)
  finally have out: "hd (OpenAIChatCompleteJSONToStreamResponseTransform ''anthropic'' 0 ?r
      ''anthropic'') = data_line (JObj
       [(''id'', JStr ''chatcmpl-1''),
        (''object'', JStr ''chat.completion.chunk''),
        (''created'', JNum 0),
        (''model'', JStr []),
        (''system_fingerprint'', JNull),
        (''provider'', JStr ''anthropic''),
        (''usage'', JObj [(''cache_read_input_tokens'', JNum 0)]),
        (''choices'', JArr [JObj [(''index'', JNum 0), (''delta'', JObj []),
                                  (''finish_reason'', JStr ''stop'')]])])" .
  have "JSON_stringify (JObj [(''cache_read_input_tokens'', JNum 0)]) =
     Some (''{'' @ quote ''cache_read_input_tokens'' @ '':0}'')"
    by (simp add: show_int_def digits.simps hex_digit_def)
  moreover have "Number_isInteger (cache_read_input_tokens
      (sample_usage None None (JNum 0) JUndefined))"
    by (simp add: sample_usage_def)
  ultimately show ?thesis using out by (intro conjI)
qed




text \<open>
  C6. Whatever the response, the last string of the output is the literal
  \<open>data: [DONE]\<close> followed by two line feeds, that string occurs once in the output, and
  when the response has no choices it is all the output.
\<close>

theorem done_last_and_once:
  "last (OpenAIChatCompleteJSONToStreamResponseTransform A now r p) =
     ''data: [DONE]'' @ [CHR 0x0A, CHR 0x0A] \<and>
   count_list (OpenAIChatCompleteJSONToStreamResponseTransform A now r p)
     (''data: [DONE]'' @ [CHR 0x0A, CHR 0x0A]) = 1 \<and>
   (choices r = [] \<longrightarrow>
      OpenAIChatCompleteJSONToStreamResponseTransform A now r p =
        [''data: [DONE]'' @ [CHR 0x0A, CHR 0x0A]])"
proof -
  have "DONE \<notin> set (map data_line (stream_objects A now r p))"
  proof
    assume "DONE \<in> set (map data_line (stream_objects A now r p))"
    then obtain e where "e \<in> set (stream_objects A now r p)" and "DONE = data_line e"
      by auto
    with stream_objects_shape show False
      by (metis data_line_not_DONE)
  qed
  then have "count_list (map data_line (stream_objects A now r p)) DONE = 0"
    by (simp add: count_list_0_iff)
  then have "count_list (OpenAIChatCompleteJSONToStreamResponseTransform A now r p) DONE = 1"
    by (simp add: OpenAIChatCompleteJSONToStreamResponseTransform_def)
  moreover have "last (OpenAIChatCompleteJSONToStreamResponseTransform A now r p) = DONE"
    by (simp add: OpenAIChatCompleteJSONToStreamResponseTransform_def)
  moreover have "choices r = [] \<longrightarrow>
      OpenAIChatCompleteJSONToStreamResponseTransform A now r p = [DONE]"
    by (simp add: OpenAIChatCompleteJSONToStreamResponseTransform_def stream_objects_def)
  moreover have "DONE = ''data: [DONE]'' @ [CHR 0x0A, CHR 0x0A]"
    by (simp add: DONE_def)
  ultimately show ?thesis by simp
qed

theorem done_last_and_once_witness:
  "OpenAIChatCompleteJSONToStreamResponseTransform ''anthropic'' 0
     (sample_response [] None) ''openai'' = [''data: [DONE]'' @ [CHR 0x0A, CHR 0x0A]] \<and>
   count_list (OpenAIChatCompleteJSONToStreamResponseTransform ''anthropic'' 0
     (sample_response [sample_choice None, sample_choice None] None) ''openai'')
     (''data: [DONE]'' @ [CHR 0x0A, CHR 0x0A]) = 1"
  using done_last_and_once [of "''anthropic''" 0 "sample_response [] None" "''openai''"]
        done_last_and_once [of "''anthropic''" 0
          "sample_response [sample_choice None, sample_choice None] None" "''openai''"]
  by (simp add: sample_response_def)





text \<open>
  C9. Every string of the output but the sentinel serialises the one template of the
  response with a \<open>choices\<close> property appended, so any two chunks agree on every
  property other than \<open>choices\<close>; each chunk carries the response's \<open>id\<close>, its
  \<open>model\<close> or the empty string when that is absent, its \<open>system_fingerprint\<close> or
  \<open>null\<close> when that is absent, the provider, the one timestamp, the one usage object,
  and the citations when there are any.
\<close>

theorem envelope_shared_by_all_chunks:
  "(\<exists>cs. OpenAIChatCompleteJSONToStreamResponseTransform A now r p =
      map (\<lambda>c. data_line (JObj (streamChunkTemplate A now r p @ [(''choices'', JArr [c])])))
        cs @ [DONE]) \<and>
   (\<forall>e1 \<in> set (stream_objects A now r p). \<forall>e2 \<in> set (stream_objects A now r p).
      (\<forall>k. k \<noteq> ''choices'' \<longrightarrow> get k e1 = get k e2) \<and>
      map fst (props e1) = map fst (streamChunkTemplate A now r p) @ [''choices''] \<and>
      get ''id'' e1 = id' r \<and>
      get ''model'' e1 = (if truthy (model r) then model r else JStr []) \<and>
      (model r = JUndefined \<longrightarrow> get ''model'' e1 = JStr []) \<and>
      get ''system_fingerprint'' e1 =
        (if truthy (system_fingerprint r) then system_fingerprint r else JNull) \<and>
      (system_fingerprint r = JUndefined \<longrightarrow> get ''system_fingerprint'' e1 = JNull) \<and>
      get ''provider'' e1 = JStr p \<and>
      get ''created'' e1 = JNum now \<and>
      get ''usage'' e1 = JObj (usage_object A p (usage_or_empty (usage r))) \<and>
      get ''citations'' e1 = (if truthy (citations r) then citations r else JUndefined))"
proof (rule conjI)
  let ?T = "streamChunkTemplate A now r p"
  have "\<forall>e \<in> set (stream_objects A now r p). \<exists>c. e = with_choice ?T c"
    using stream_objects_shape by blast
  then have "\<exists>cs. stream_objects A now r p = map (with_choice ?T) cs"
    by (simp only: ex_map_conv)
  then obtain cs where "stream_objects A now r p = map (with_choice ?T) cs" ..
  then have "OpenAIChatCompleteJSONToStreamResponseTransform A now r p =
      map (\<lambda>c. data_line (JObj (?T @ [(''choices'', JArr [c])]))) cs @ [DONE]"
    by (simp add: OpenAIChatCompleteJSONToStreamResponseTransform_def with_choice_def)
  then show "\<exists>cs. OpenAIChatCompleteJSONToStreamResponseTransform A now r p =
      map (\<lambda>c. data_line (JObj (?T @ [(''choices'', JArr [c])]))) cs @ [DONE]" ..
next
  show "\<forall>e1 \<in> set (stream_objects A now r p). \<forall>e2 \<in> set (stream_objects A now r p).
      (\<forall>k. k \<noteq> ''choices'' \<longrightarrow> get k e1 = get k e2) \<and>
      map fst (props e1) = map fst (streamChunkTemplate A now r p) @ [''choices''] \<and>
      get ''id'' e1 = id' r \<and>
      get ''model'' e1 = (if truthy (model r) then model r else JStr []) \<and>
      (model r = JUndefined \<longrightarrow> get ''model'' e1 = JStr []) \<and>
      get ''system_fingerprint'' e1 =
        (if truthy (system_fingerprint r) then system_fingerprint r else JNull) \<and>
      (system_fingerprint r = JUndefined \<longrightarrow> get ''system_fingerprint'' e1 = JNull) \<and>
      get ''provider'' e1 = JStr p \<and>
      get ''created'' e1 = JNum now \<and>
      get ''usage'' e1 = JObj (usage_object A p (usage_or_empty (usage r))) \<and>
      get ''citations'' e1 = (if truthy (citations r) then citations r else JUndefined)"
  proof (intro ballI)
  fix e1 e2
  assume "e1 \<in> set (stream_objects A now r p)" and "e2 \<in> set (stream_objects A now r p)"
  let ?T = "streamChunkTemplate A now r p"
  from stream_objects_shape [OF \<open>e1 \<in> _\<close>] obtain c1 where e1: "e1 = with_choice ?T c1" ..
  from stream_objects_shape [OF \<open>e2 \<in> _\<close>] obtain c2 where e2: "e2 = with_choice ?T c2" ..
  have same: "\<forall>k. k \<noteq> ''choices'' \<longrightarrow> get k e1 = get k e2"
    by (simp add: e1 e2 get_with_choice del: get.simps)
  have keys: "map fst (props e1) = map fst ?T @ [''choices'']"
    by (simp add: e1 with_choice_def)
  have fields: "get ''id'' e1 = id' r"
    "get ''model'' e1 = (if truthy (model r) then model r else JStr [])"
    "get ''system_fingerprint'' e1 =
       (if truthy (system_fingerprint r) then system_fingerprint r else JNull)"
    "get ''provider'' e1 = JStr p"
    "get ''created'' e1 = JNum now"
    "get ''usage'' e1 = JObj (usage_object A p (usage_or_empty (usage r)))"
    by (simp_all add: e1 with_choice_def streamChunkTemplate_def js_or_def map_add_def)
  have cit: "get ''citations'' e1 = (if truthy (citations r) then citations r else JUndefined)"
    by (simp add: e1 with_choice_def streamChunkTemplate_def spread_if_def map_add_def)
  from same keys fields cit
  show "(\<forall>k. k \<noteq> ''choices'' \<longrightarrow> get k e1 = get k e2) \<and>
      map fst (props e1) = map fst (streamChunkTemplate A now r p) @ [''choices''] \<and>
      get ''id'' e1 = id' r \<and>
      get ''model'' e1 = (if truthy (model r) then model r else JStr []) \<and>
      (model r = JUndefined \<longrightarrow> get ''model'' e1 = JStr []) \<and>
      get ''system_fingerprint'' e1 =
        (if truthy (system_fingerprint r) then system_fingerprint r else JNull) \<and>
      (system_fingerprint r = JUndefined \<longrightarrow> get ''system_fingerprint'' e1 = JNull) \<and>
      get ''provider'' e1 = JStr p \<and>
      get ''created'' e1 = JNum now \<and>
      get ''usage'' e1 = JObj (usage_object A p (usage_or_empty (usage r))) \<and>
      get ''citations'' e1 = (if truthy (citations r) then citations r else JUndefined)"
    by simp
  qed
qed

theorem envelope_shared_by_all_chunks_witness:
  "map (get ''id'') (stream_objects ''anthropic'' 1700
     (sample_response [sample_choice (Some (flat_message ''hi''))] None) ''openai'') =
     [JStr ''chatcmpl-1'', JStr ''chatcmpl-1''] \<and>
   map (get ''model'') (stream_objects ''anthropic'' 1700
     (sample_response [sample_choice (Some (flat_message ''hi''))] None) ''openai'') =
     [JStr [], JStr []] \<and>
   map (get ''created'') (stream_objects ''anthropic'' 1700
     (sample_response [sample_choice (Some (flat_message ''hi''))] None) ''openai'') =
     [JNum 1700, JNum 1700]"
proof -
  let ?r = "sample_response [sample_choice (Some (flat_message ''hi''))] None"
  let ?S = "stream_objects ''anthropic'' 1700 ?r ''openai''"
  have S: "?S = [word_chunk (streamChunkTemplate ''anthropic'' 1700 ?r ''openai'') 0 JUndefined ''hi'',
                 finish_chunk (streamChunkTemplate ''anthropic'' 1700 ?r ''openai'') 0 (JStr ''stop'')]"
    by (simp add: stream_objects_def sample_response_def sample_choice_def flat_message_def
        choice_events_def content_blocks_events_def tool_calls_events_def content_events_def
        slices_from_unfold slices_from_done slice_def)
  have m1: "?S ! 0 \<in> set ?S" and m2: "?S ! 1 \<in> set ?S"
    by (simp_all add: S)
  have r: "id' ?r = JStr ''chatcmpl-1''" "model ?r = JUndefined"
    by (simp_all add: sample_response_def)
  note env = envelope_shared_by_all_chunks [of "''anthropic''" 1700 ?r "''openai''",
      THEN conjunct2, rule_format]
  from env [OF m1 m2] env [OF m2 m1]
  show ?thesis
    by (simp add: S r)
qed

text \<open>
  C10. The non-streaming transform hands the body to the error transform exactly when the
  status is not 200 and the body has an \<open>error\<close> property, and returns what that
  transform returned; in every other case it returns the body it was given.
\<close>

theorem passthrough_delegates_only_on_error:
  "(responseStatus \<noteq> 200 \<and> has_key ''error'' response \<longrightarrow>
      OpenAIChatCompleteResponseTransform T OPEN_AI response responseStatus = T response OPEN_AI) \<and>
   (\<not> (responseStatus \<noteq> 200 \<and> has_key ''error'' response) \<longrightarrow>
      OpenAIChatCompleteResponseTransform T OPEN_AI response responseStatus = response)"
  by (simp add: OpenAIChatCompleteResponseTransform_def)

theorem passthrough_delegates_only_on_error_witness:
  "OpenAIChatCompleteResponseTransform sample_error_transform ''openai'' sample_error_body 401 =
     [(''error'', JObj [(''message'', JStr ''bad key'')]), (''provider'', JStr ''openai'')] \<and>
   OpenAIChatCompleteResponseTransform sample_error_transform ''openai'' sample_error_body 200 =
     sample_error_body \<and>
   OpenAIChatCompleteResponseTransform sample_error_transform ''openai'' [(''id'', JStr ''x'')] 500 =
     [(''id'', JStr ''x'')]"
  using passthrough_delegates_only_on_error
          [of 401 sample_error_body sample_error_transform "''openai''"]
        passthrough_delegates_only_on_error
          [of 200 sample_error_body sample_error_transform "''openai''"]
        passthrough_delegates_only_on_error
          [of 500 "[(''id'', JStr ''x'')]" sample_error_transform "''openai''"]
  by (simp add: has_key_def sample_error_body_def sample_error_transform_def)

end
